theory Spec2Isabelle
  imports Complex_Main "HOL-Library.Word"
begin

section \<open>JavaScript strings\<close>

text \<open>
  A JavaScript string is a sequence of UTF-16 code units. Literals of the source are
  written \<open>js ''...''\<close>. \<open>String.prototype.trim\<close> strips the ECMAScript
  WhiteSpace and LineTerminator code points from both ends; all of them lie in the Basic
  Multilingual Plane, so the test is on single code units:
  U+0009..U+000D, U+0020, U+00A0, U+1680, U+2000..U+200A, U+2028, U+2029, U+202F,
  U+205F, U+3000, U+FEFF.
\<close>

type_synonym jschar = "16 word"
type_synonym jsstring = "jschar list"

definition js :: "string \<Rightarrow> jsstring" where
  "js s = map of_char s"

definition isWhiteSpace :: "jschar \<Rightarrow> bool" where
  "isWhiteSpace c \<longleftrightarrow>
     c \<in> set [9, 10, 11, 12, 13, 32, 160, 5760, 8232, 8233, 8239, 8287, 12288, 65279]
     \<or> (8192 \<le> c \<and> c \<le> 8202)"

definition trim :: "jsstring \<Rightarrow> jsstring" where
  "trim s = rev (dropWhile isWhiteSpace (rev (dropWhile isWhiteSpace s)))"

text \<open>The remainder operator \<open>%\<close> of JavaScript truncates towards zero.\<close>

definition js_rem :: "int \<Rightarrow> int \<Rightarrow> int" where
  "js_rem a b = sgn a * (\<bar>a\<bar> mod \<bar>b\<bar>)"


section \<open>Data model (types.ts, App.tsx)\<close>

datatype AspectRatio = R1_1 | R3_4 | R4_3 | R9_16 | R16_9

record GeneratedNFT =
  nft_id :: jsstring
  nft_url :: jsstring
  nft_prompt :: jsstring
  nft_timestamp :: int
  nft_aspectRatio :: AspectRatio

record EditState =
  brightness :: int
  contrast :: int
  grayscale :: int
  sepia :: int
  rotation :: int

definition INITIAL_EDIT_STATE :: EditState where
  "INITIAL_EDIT_STATE =
     \<lparr>brightness = 100, contrast = 100, grayscale = 0, sepia = 0, rotation = 0\<rparr>"

datatype ViewMode = forge | marketplace

datatype ShareStatus = share_idle | share_sharing | share_success | share_error

datatype Platform = platform_x | platform_linkedin | platform_github

text \<open>The \<open>useState\<close> cells of the \<open>App\<close> component.\<close>

record app_state =
  viewMode :: ViewMode
  prompt :: jsstring
  aspectRatio :: AspectRatio
  isGenerating :: bool
  history :: "GeneratedNFT list"
  listedIds :: "jsstring set"
  error :: "jsstring option"
  currentNFT :: "GeneratedNFT option"
  shareStatus :: ShareStatus
  isEditing :: bool
  editState :: EditState

definition initial_state :: app_state where
  "initial_state =
     \<lparr>viewMode = forge, prompt = [], aspectRatio = R1_1, isGenerating = False,
      history = [], listedIds = {}, error = None, currentNFT = None,
      shareStatus = share_idle, isEditing = False, editState = INITIAL_EDIT_STATE\<rparr>"


section \<open>The generation service (services/geminiService.ts)\<close>

text \<open>
  The argument of \<open>ai.models.generateContent\<close>: the model name, the texts of
  \<open>contents.parts\<close> and \<open>config.imageConfig.aspectRatio\<close>.
\<close>

record GenerateContentRequest =
  req_model :: jsstring
  req_parts :: "jsstring list"
  req_aspectRatio :: AspectRatio

text \<open>
  The response, as far as the service reads it. Every level may be missing, as the
  optional chaining of the source allows; \<open>inlineData.data\<close> may be undefined.
\<close>

datatype InlineData = InlineData (inline_data: "jsstring option")

record Part =
  part_text :: "jsstring option"
  inlineData :: "InlineData option"

record Content =
  parts :: "Part list option"

record Candidate =
  content :: "Content option"

record GenerateContentResponse =
  candidates :: "Candidate list option"

text \<open>A thrown \<open>Error\<close>; an empty message also stands for a thrown value without one.\<close>

datatype js_error = Error (message: jsstring)

definition api_key_missing :: js_error where
  "api_key_missing =
     Error (js ''API Key is missing. Please ensure it's configured in the environment.'')"

definition extraction_error :: js_error where
  "extraction_error = Error (js ''Failed to extract image from model response.'')"

text \<open>
  What the code reads from outside: \<open>process.env.API_KEY\<close>, the remote model
  (it answers or throws), \<open>crypto.randomUUID()\<close> and \<open>Date.now()\<close>.
\<close>

record gen_env =
  apiKey :: "jsstring option"
  generateContent :: "GenerateContentRequest \<Rightarrow> js_error + GenerateContentResponse"
  randomUUID :: jsstring
  now :: int

definition prompt_prefix :: jsstring where
  "prompt_prefix =
     js ''High quality NFT digital art, professional lighting, unique concept, highly detailed, masterwork style: ''"

definition build_request :: "jsstring \<Rightarrow> AspectRatio \<Rightarrow> GenerateContentRequest" where
  "build_request p ar =
     \<lparr>req_model = js ''gemini-2.5-flash-image'',
      req_parts = [prompt_prefix @ p],
      req_aspectRatio = ar\<rparr>"

text \<open>\<open>response.candidates && response.candidates[0]?.content?.parts\<close>\<close>

definition first_parts :: "GenerateContentResponse \<Rightarrow> Part list option" where
  "first_parts response =
     (case candidates response of
        None \<Rightarrow> None
      | Some [] \<Rightarrow> None
      | Some (c # _) \<Rightarrow> (case content c of None \<Rightarrow> None | Some ct \<Rightarrow> parts ct))"

text \<open>The \<open>for ... of\<close> loop with its \<open>break\<close> at the first part that has inline data.\<close>

fun scan_parts :: "Part list \<Rightarrow> jsstring \<Rightarrow> jsstring" where
  "scan_parts [] imageUrl = imageUrl"
| "scan_parts (p # ps) imageUrl =
     (case inlineData p of
        Some d \<Rightarrow>
          js ''data:image/png;base64,''
            @ (case inline_data d of Some b \<Rightarrow> b | None \<Rightarrow> js ''undefined'')
      | None \<Rightarrow> scan_parts ps imageUrl)"

text \<open>
  \<open>generateNFTImage\<close> returns the requests it sent to the model together with its
  result: \<open>Inl\<close> is the thrown error, \<open>Inr\<close> the data URL. The \<open>catch\<close> block logs
  and rethrows, so an error of the model passes through.
\<close>

definition generateNFTImage ::
  "gen_env \<Rightarrow> jsstring \<Rightarrow> AspectRatio \<Rightarrow> GenerateContentRequest list \<times> (js_error + jsstring)"
where
  "generateNFTImage env p ar =
     (if apiKey env = None \<or> apiKey env = Some [] then ([], Inl api_key_missing)
      else
        let req = build_request p ar in
        (case generateContent env req of
           Inl e \<Rightarrow> ([req], Inl e)
         | Inr response \<Rightarrow>
             let imageUrl =
                   (case first_parts response of
                      None \<Rightarrow> []
                    | Some ps \<Rightarrow> scan_parts ps [])
             in if imageUrl = [] then ([req], Inl extraction_error)
                else ([req], Inr imageUrl)))"


section \<open>The operations of the App component (App.tsx)\<close>

text \<open>The updater of line 89: \<open>prev => [newNFT, ...prev].slice(0, 12)\<close>.\<close>

definition create :: "GeneratedNFT \<Rightarrow> GeneratedNFT list \<Rightarrow> GeneratedNFT list" where
  "create newNFT prev = take 12 (newNFT # prev)"

text \<open>
  \<open>handleGenerate\<close>, run to completion: the requests sent to the model and the state
  after the \<open>finally\<close> block.
\<close>

definition handleGenerate ::
  "gen_env \<Rightarrow> app_state \<Rightarrow> GenerateContentRequest list \<times> app_state"
where
  "handleGenerate env s =
     (if trim (prompt s) = [] then
        ([], s\<lparr>error := Some (js ''Please enter a prompt to generate an image.'')\<rparr>)
      else
        let s1 = s\<lparr>isGenerating := True, error := None, isEditing := False\<rparr> in
        (case generateNFTImage env (prompt s) (aspectRatio s) of
           (calls, Inr imageUrl) \<Rightarrow>
             let newNFT = \<lparr>nft_id = randomUUID env, nft_url = imageUrl,
                            nft_prompt = prompt s, nft_timestamp = now env,
                            nft_aspectRatio = aspectRatio s\<rparr>
             in (calls, s1\<lparr>currentNFT := Some newNFT,
                            history := create newNFT (history s1),
                            isGenerating := False\<rparr>)
         | (calls, Inl err) \<Rightarrow>
             (calls,
              s1\<lparr>error := Some (if message err = []
                                  then js ''An error occurred while generating the image.''
                                  else message err),
                  isGenerating := False\<rparr>)))"

text \<open>A run of generations, one environment for each call.\<close>

definition generate_all :: "gen_env list \<Rightarrow> app_state \<Rightarrow> app_state" where
  "generate_all envs s = fold (\<lambda>env st. snd (handleGenerate env st)) envs s"

text \<open>
  \<open>listOnPlatform\<close>: the share URL is opened in a new tab, which leaves the state
  alone; the state change is the insertion into \<open>listedIds\<close>.
\<close>

definition listOnPlatform :: "Platform \<Rightarrow> GeneratedNFT \<Rightarrow> app_state \<Rightarrow> app_state" where
  "listOnPlatform platform nft s = s\<lparr>listedIds := insert (nft_id nft) (listedIds s)\<rparr>"

definition deleteFromHistory :: "jsstring \<Rightarrow> app_state \<Rightarrow> app_state" where
  "deleteFromHistory i s =
     s\<lparr>history := filter (\<lambda>item. nft_id item \<noteq> i) (history s),
       listedIds := listedIds s - {i},
       currentNFT := (case currentNFT s of
                        None \<Rightarrow> None
                      | Some c \<Rightarrow> if nft_id c = i then None else Some c)\<rparr>"


subsection \<open>The edit panel\<close>

text \<open>
  The \<open>Edit\<close> button, the three sliders (brightness, contrast, grayscale; the value is
  \<open>parseInt\<close> of the slider position), \<open>Rotate\<close>, \<open>Reset\<close>, \<open>Cancel\<close> and the
  click on a history tile.
\<close>

datatype SliderProp = prop_brightness | prop_contrast | prop_grayscale

definition enterEdit :: "app_state \<Rightarrow> app_state" where
  "enterEdit s = s\<lparr>isEditing := True\<rparr>"

definition setSlider :: "SliderProp \<Rightarrow> int \<Rightarrow> app_state \<Rightarrow> app_state" where
  "setSlider p v s =
     (case p of
        prop_brightness \<Rightarrow> s\<lparr>editState := (editState s)\<lparr>brightness := v\<rparr>\<rparr>
      | prop_contrast \<Rightarrow> s\<lparr>editState := (editState s)\<lparr>contrast := v\<rparr>\<rparr>
      | prop_grayscale \<Rightarrow> s\<lparr>editState := (editState s)\<lparr>grayscale := v\<rparr>\<rparr>)"

definition rotateEdit :: "app_state \<Rightarrow> app_state" where
  "rotateEdit s =
     s\<lparr>editState := (editState s)\<lparr>rotation := js_rem (rotation (editState s) + 90) 360\<rparr>\<rparr>"

definition resetEdit :: "app_state \<Rightarrow> app_state" where
  "resetEdit s = s\<lparr>editState := INITIAL_EDIT_STATE\<rparr>"

definition cancelEdit :: "app_state \<Rightarrow> app_state" where
  "cancelEdit s = s\<lparr>isEditing := False\<rparr>"

definition selectNFT :: "GeneratedNFT \<Rightarrow> app_state \<Rightarrow> app_state" where
  "selectNFT item s = s\<lparr>currentNFT := Some item, isEditing := False\<rparr>"

subsection \<open>Saving an edit\<close>

text \<open>
  The decoded image gives its dimensions. The 2D context is kept as the commands it
  received since the canvas was last resized (assigning \<open>canvas.width\<close> resets the
  context): the four percentages of the filter string, and the drawing calls with their
  arguments. The angle of \<open>rotate\<close> is kept in degrees; the code passes
  \<open>rotation * Math.PI / 180\<close>.
\<close>

record HTMLImage =
  img_width :: nat
  img_height :: nat

datatype ctx_call =
    ClearRect rat rat rat rat
  | Translate rat rat
  | Rotate int
  | DrawImage HTMLImage rat rat

record Canvas =
  canvas_width :: nat
  canvas_height :: nat
  ctx_filter :: "(int \<times> int \<times> int \<times> int) option"
  ctx_calls :: "ctx_call list"

text \<open>
  The browser: the hidden canvas with its 2D context (\<open>None\<close> when the ref or the
  context is null), the image loader (\<open>None\<close> when \<open>onload\<close> never fires) and
  \<open>canvas.toDataURL('image/png')\<close>.
\<close>

record canvas_env =
  canvasRef :: "Canvas option"
  loadImage :: "jsstring \<Rightarrow> HTMLImage option"
  toDataURL :: "Canvas \<Rightarrow> jsstring"

datatype edit_outcome = Skipped | Pending | Saved Canvas

definition applyEdits :: "canvas_env \<Rightarrow> app_state \<Rightarrow> edit_outcome \<times> app_state" where
  "applyEdits cenv s =
     (case currentNFT s of
        None \<Rightarrow> (Skipped, s)
      | Some cur \<Rightarrow>
         (case canvasRef cenv of
            None \<Rightarrow> (Skipped, s)
          | Some canvas0 \<Rightarrow>
             (case loadImage cenv (nft_url cur) of
                None \<Rightarrow> (Pending, s)
              | Some img \<Rightarrow>
                 let isHorizontalRotation = (js_rem (rotation (editState s)) 180 \<noteq> 0);
                     w = (if isHorizontalRotation then img_height img else img_width img);
                     h = (if isHorizontalRotation then img_width img else img_height img);
                     canvas =
                       \<lparr>canvas_width = w, canvas_height = h,
                        ctx_filter = Some (brightness (editState s), contrast (editState s),
                                           grayscale (editState s), sepia (editState s)),
                        ctx_calls =
                          [ClearRect 0 0 (of_nat w) (of_nat h),
                           Translate (of_nat w / 2) (of_nat h / 2),
                           Rotate (rotation (editState s)),
                           DrawImage img (- of_nat (img_width img) / 2)
                                         (- of_nat (img_height img) / 2)]\<rparr>;
                     editedUrl = toDataURL cenv canvas;
                     updatedNFT = cur\<lparr>nft_url := editedUrl\<rparr>
                 in (Saved canvas,
                     s\<lparr>currentNFT := Some updatedNFT,
                       history := map (\<lambda>item. if nft_id item = nft_id cur then updatedNFT
                                                else item) (history s),
                       isEditing := False,
                       editState := INITIAL_EDIT_STATE\<rparr>))))"

subsection \<open>Loading from local storage\<close>

text \<open>
  The two items of \<open>localStorage\<close> (\<open>None\<close> for \<open>null\<close>) and \<open>JSON.parse\<close> at the
  two types the component expects (\<open>None\<close> when it throws). A stored value that parses
  to something else than an array of assets has no counterpart in the typed state and is
  outside this model.
\<close>

record storage =
  nft_history :: "jsstring option"
  nft_listed :: "jsstring option"

record json_env =
  parse_history :: "jsstring \<Rightarrow> GeneratedNFT list option"
  parse_listed :: "jsstring \<Rightarrow> jsstring list option"

definition load_history :: "json_env \<Rightarrow> storage \<Rightarrow> app_state \<Rightarrow> app_state" where
  "load_history j st s =
     (case nft_history st of
        None \<Rightarrow> s
      | Some savedHistory \<Rightarrow>
          if savedHistory = [] then s
          else (case parse_history j savedHistory of
                  None \<Rightarrow> s
                | Some parsed \<Rightarrow>
                    (case parsed of
                       [] \<Rightarrow> s\<lparr>history := parsed\<rparr>
                     | first # _ \<Rightarrow> s\<lparr>history := parsed, currentNFT := Some first\<rparr>)))"

definition load_listed :: "json_env \<Rightarrow> storage \<Rightarrow> app_state \<Rightarrow> app_state" where
  "load_listed j st s =
     (case nft_listed st of
        None \<Rightarrow> s
      | Some savedListed \<Rightarrow>
          if savedListed = [] then s
          else (case parse_listed j savedListed of
                  None \<Rightarrow> s
                | Some ids \<Rightarrow> s\<lparr>listedIds := set ids\<rparr>))"

definition load :: "json_env \<Rightarrow> storage \<Rightarrow> app_state \<Rightarrow> app_state" where
  "load j st s = load_listed j st (load_history j st s)"

subsection \<open>User events\<close>

text \<open>
  One event for each control of the page. A control acts only where the page renders it:
  the prompt, the ratio buttons, the generate button (disabled while a generation runs),
  the history tiles and the edit controls in the forge view, the listing buttons on the
  tiles of the marketplace view.
  An event whose control is not rendered leaves the state as it is.
\<close>

datatype event =
    ClickNav ViewMode
  | TypePrompt jsstring
  | ClickRatio AspectRatio
  | ClickGenerate gen_env
  | ClickTile GeneratedNFT
  | ClickDelete jsstring
  | ClickEdit
  | MoveSlider SliderProp int
  | ClickRotate
  | ClickReset
  | ClickCancel
  | ClickSave canvas_env
  | ClickList Platform GeneratedNFT

definition in_forge :: "app_state \<Rightarrow> bool" where
  "in_forge s \<longleftrightarrow> viewMode s = forge"

definition panel_open :: "app_state \<Rightarrow> bool" where
  "panel_open s \<longleftrightarrow> in_forge s \<and> currentNFT s \<noteq> None \<and> isEditing s"

fun step :: "event \<Rightarrow> app_state \<Rightarrow> app_state" where
  "step (ClickNav m) s = s\<lparr>viewMode := m\<rparr>"
| "step (TypePrompt p) s = (if in_forge s then s\<lparr>prompt := p\<rparr> else s)"
| "step (ClickRatio r) s = (if in_forge s then s\<lparr>aspectRatio := r\<rparr> else s)"
| "step (ClickGenerate env) s =
     (if in_forge s \<and> \<not> isGenerating s then snd (handleGenerate env s) else s)"
| "step (ClickTile item) s =
     (if in_forge s \<and> item \<in> set (history s) then selectNFT item s else s)"
| "step (ClickDelete i) s =
     (if in_forge s \<and> i \<in> nft_id ` set (history s) then deleteFromHistory i s else s)"
| "step ClickEdit s =
     (if in_forge s \<and> currentNFT s \<noteq> None \<and> \<not> isEditing s then enterEdit s else s)"
| "step (MoveSlider p v) s = (if panel_open s then setSlider p v s else s)"
| "step ClickRotate s = (if panel_open s then rotateEdit s else s)"
| "step ClickReset s = (if panel_open s then resetEdit s else s)"
| "step ClickCancel s = (if panel_open s then cancelEdit s else s)"
| "step (ClickSave cenv) s = (if panel_open s then snd (applyEdits cenv s) else s)"
| "step (ClickList platform nft) s =
     (if viewMode s = marketplace \<and> nft \<in> set (history s) then listOnPlatform platform nft s
      else s)"

definition run :: "event list \<Rightarrow> app_state \<Rightarrow> app_state" where
  "run evs s = fold step evs s"

text \<open>The intended invariant of the listed set: every listed id is the id of an asset
  of the history.\<close>

definition listed_in_history :: "app_state \<Rightarrow> bool" where
  "listed_in_history s \<longleftrightarrow> listedIds s \<subseteq> nft_id ` set (history s)"



subsection \<open>Responses with and without an image\<close>

text \<open>
  An inline image payload is the \<open>data\<close> string of the \<open>inlineData\<close> object of a
  part, when that string is present and not empty. \<open>has_inline_payload\<close>: some part of
  some candidate of the response carries one. \<open>has_inlineData\<close>: some part of some
  candidate has an \<open>inlineData\<close> object at all, with or without data.
\<close>

definition carries_payload :: "Part \<Rightarrow> bool" where
  "carries_payload p \<longleftrightarrow>
     (case inlineData p of
        None \<Rightarrow> False
      | Some d \<Rightarrow> (case inline_data d of None \<Rightarrow> False | Some b \<Rightarrow> b \<noteq> []))"

definition has_inline_payload :: "GenerateContentResponse \<Rightarrow> bool" where
  "has_inline_payload response \<longleftrightarrow>
     (case candidates response of
        None \<Rightarrow> False
      | Some cs \<Rightarrow>
          list_ex (\<lambda>c. case content c of
                          None \<Rightarrow> False
                        | Some ct \<Rightarrow> (case parts ct of
                                       None \<Rightarrow> False
                                     | Some ps \<Rightarrow> list_ex carries_payload ps)) cs)"

definition has_inlineData :: "GenerateContentResponse \<Rightarrow> bool" where
  "has_inlineData response \<longleftrightarrow>
     (case candidates response of
        None \<Rightarrow> False
      | Some cs \<Rightarrow>
          list_ex (\<lambda>c. case content c of
                          None \<Rightarrow> False
                        | Some ct \<Rightarrow> (case parts ct of
                                       None \<Rightarrow> False
                                     | Some ps \<Rightarrow> list_ex (\<lambda>p. inlineData p \<noteq> None) ps)) cs)"

subsection \<open>Sample inputs\<close>

definition image_response :: GenerateContentResponse where
  "image_response =
     \<lparr>candidates = Some [\<lparr>content = Some \<lparr>parts = Some
        [\<lparr>part_text = Some (js ''ok''), inlineData = None\<rparr>,
         \<lparr>part_text = None, inlineData = Some (InlineData (Some (js ''AAAA'')))\<rparr>]\<rparr>\<rparr>]\<rparr>"

definition text_response :: GenerateContentResponse where
  "text_response =
     \<lparr>candidates = Some [\<lparr>content = Some \<lparr>parts = Some
        [\<lparr>part_text = Some (js ''no image''), inlineData = None\<rparr>]\<rparr>\<rparr>]\<rparr>"

definition sample_env :: "jsstring \<Rightarrow> gen_env" where
  "sample_env uuid =
     \<lparr>apiKey = Some (js ''k''), generateContent = (\<lambda>_. Inr image_response),
      randomUUID = uuid, now = 1700000000000\<rparr>"

definition text_env :: gen_env where
  "text_env =
     \<lparr>apiKey = Some (js ''k''), generateContent = (\<lambda>_. Inr text_response),
      randomUUID = js ''u'', now = 1700000000000\<rparr>"

text \<open>
  Responses whose only part has an \<open>inlineData\<close> object without image bytes:
  \<open>{inlineData: {data: ''}}\<close> and \<open>{inlineData: {}}\<close>.
\<close>

definition empty_payload_response :: GenerateContentResponse where
  "empty_payload_response =
     \<lparr>candidates = Some [\<lparr>content = Some \<lparr>parts = Some
        [\<lparr>part_text = None, inlineData = Some (InlineData (Some []))\<rparr>]\<rparr>\<rparr>]\<rparr>"

definition missing_payload_response :: GenerateContentResponse where
  "missing_payload_response =
     \<lparr>candidates = Some [\<lparr>content = Some \<lparr>parts = Some
        [\<lparr>part_text = None, inlineData = Some (InlineData None)\<rparr>]\<rparr>\<rparr>]\<rparr>"

definition empty_payload_env :: gen_env where
  "empty_payload_env =
     \<lparr>apiKey = Some (js ''k''), generateContent = (\<lambda>_. Inr empty_payload_response),
      randomUUID = js ''u'', now = 1700000000000\<rparr>"

definition missing_payload_env :: gen_env where
  "missing_payload_env =
     \<lparr>apiKey = Some (js ''k''), generateContent = (\<lambda>_. Inr missing_payload_response),
      randomUUID = js ''u'', now = 1700000000000\<rparr>"

definition sample_nft :: "jsstring \<Rightarrow> GeneratedNFT" where
  "sample_nft uuid =
     \<lparr>nft_id = uuid, nft_url = js ''data:image/png;base64,AAAA'', nft_prompt = js ''cat'',
      nft_timestamp = 1700000000000, nft_aspectRatio = R1_1\<rparr>"

definition cat_state :: app_state where
  "cat_state = initial_state\<lparr>prompt := js ''cat''\<rparr>"

definition blank_state :: app_state where
  "blank_state = initial_state\<lparr>prompt := js ''  '', history := [sample_nft (js ''a'')]\<rparr>"

definition editing_state :: app_state where
  "editing_state =
     initial_state\<lparr>history := [sample_nft (js ''a''), sample_nft (js ''b'')],
                   listedIds := {js ''a'', js ''b''},
                   currentNFT := Some (sample_nft (js ''a'')),
                   isEditing := True,
                   editState := INITIAL_EDIT_STATE\<lparr>brightness := 150, rotation := 90\<rparr>\<rparr>"

definition sample_canvas_env :: canvas_env where
  "sample_canvas_env =
     \<lparr>canvasRef = Some \<lparr>canvas_width = 300, canvas_height = 150, ctx_filter = None,
                         ctx_calls = []\<rparr>,
      loadImage = (\<lambda>_. Some \<lparr>img_width = 800, img_height = 600\<rparr>),
      toDataURL = (\<lambda>_. js ''data:image/png;base64,BBBB'')\<rparr>"

text \<open>
  A session: one asset is generated and listed, then twelve more are generated.
\<close>

definition eviction_session :: "event list" where
  "eviction_session =
     [TypePrompt (js ''cat''),
      ClickGenerate (sample_env (js ''a'')),
      ClickNav marketplace,
      ClickList platform_x (sample_nft (js ''a'')),
      ClickNav forge]
     @ map (\<lambda>u. ClickGenerate (sample_env (js u)))
         [''b'', ''c'', ''d'', ''e'', ''f'', ''g'', ''h'', ''i'', ''j'', ''k'', ''l'', ''m'']"

text \<open>A stored history of thirteen assets, and a parser that reads it.\<close>

definition long_history :: "GeneratedNFT list" where
  "long_history = replicate 13 (sample_nft (js ''a''))"

definition long_storage :: storage where
  "long_storage = \<lparr>nft_history = Some (js ''[...]''), nft_listed = None\<rparr>"

definition long_json :: json_env where
  "long_json = \<lparr>parse_history = (\<lambda>_. Some long_history), parse_listed = (\<lambda>_. None)\<rparr>"

text \<open>A state whose history is full: twelve assets, \<open>l\<close> the newest and \<open>a\<close> the oldest.\<close>

definition full_state :: app_state where
  "full_state =
     cat_state\<lparr>history := map (\<lambda>u. sample_nft (js u))
        [''l'', ''k'', ''j'', ''i'', ''h'', ''g'', ''f'', ''e'', ''d'', ''c'', ''b'', ''a'']\<rparr>"


section \<open>Strings and remainders\<close>

lemma trim_Nil_iff: "trim p = [] \<longleftrightarrow> (\<forall>c\<in>set p. isWhiteSpace c)"
proof -
  have "trim p = [] \<longleftrightarrow> (\<forall>c\<in>set (dropWhile isWhiteSpace p). isWhiteSpace c)"
    by (simp add: trim_def dropWhile_eq_Nil_conv)
  also have "\<dots> \<longleftrightarrow> (\<forall>c\<in>set p. isWhiteSpace c)"
  proof
    assume a: "\<forall>c\<in>set (dropWhile isWhiteSpace p). isWhiteSpace c"
    have "set p = set (takeWhile isWhiteSpace p) \<union> set (dropWhile isWhiteSpace p)"
      by (metis set_append takeWhile_dropWhile_id)
    with a show "\<forall>c\<in>set p. isWhiteSpace c"
      by (auto dest: set_takeWhileD)
  next
    assume "\<forall>c\<in>set p. isWhiteSpace c"
    then show "\<forall>c\<in>set (dropWhile isWhiteSpace p). isWhiteSpace c"
      by (auto dest: set_dropWhileD)
  qed
  finally show ?thesis .
qed

lemma trim_cat: "trim (js ''cat'') \<noteq> []"
  by (simp add: trim_Nil_iff js_def isWhiteSpace_def)

lemma js_rem_eq_0_iff: "js_rem a b = 0 \<longleftrightarrow> a mod b = 0"
  by (auto simp: js_rem_def sgn_if simp flip: dvd_eq_mod_eq_0)

section \<open>History capacity\<close>

lemma fold_create:
  assumes "length h \<le> 12"
  shows "fold create ns h = take 12 (rev ns @ h)"
  using assms
proof (induction ns arbitrary: h)
  case Nil
  then show ?case by simp
next
  case (Cons n ns)
  have "length (create n h) \<le> 12"
    by (simp add: create_def)
  then have "fold create ns (create n h) = take 12 (rev ns @ create n h)"
    by (rule Cons.IH)
  also have "\<dots> = take 12 (rev ns @ n # h)"
    by (simp add: create_def take_Cons')
  finally show ?case by simp
qed

lemma handleGenerate_history:
  "history (snd (handleGenerate env s)) = history s
   \<or> (\<exists>n. history (snd (handleGenerate env s)) = create n (history s))"
  by (auto simp: handleGenerate_def Let_def split: prod.splits sum.splits)

lemma generate_all_Cons:
  "generate_all (env # envs) s = generate_all envs (snd (handleGenerate env s))"
  by (simp add: generate_all_def)

lemma generate_all_history:
  "\<exists>ns. length ns \<le> length envs \<and> history (generate_all envs s) = fold create ns (history s)"
proof (induction envs arbitrary: s)
  case Nil
  have "length ([]::GeneratedNFT list) \<le> length ([]::gen_env list)
        \<and> history (generate_all [] s) = fold create [] (history s)"
    by (simp add: generate_all_def)
  then show ?case by blast
next
  case (Cons env envs)
  let ?s1 = "snd (handleGenerate env s)"
  from Cons.IH [of ?s1] obtain ns where
    ns: "length ns \<le> length envs"
        "history (generate_all envs ?s1) = fold create ns (history ?s1)"
    by blast
  from handleGenerate_history [of env s] show ?case
  proof
    assume "history ?s1 = history s"
    with ns have "length ns \<le> length (env # envs)
        \<and> history (generate_all (env # envs) s) = fold create ns (history s)"
      by (simp add: generate_all_Cons)
    then show ?thesis by blast
  next
    assume "\<exists>n. history ?s1 = create n (history s)"
    then obtain n where "history ?s1 = create n (history s)" by blast
    with ns have "length (n # ns) \<le> length (env # envs)
        \<and> history (generate_all (env # envs) s) = fold create (n # ns) (history s)"
      by (simp add: generate_all_Cons)
    then show ?thesis by blast
  qed
qed

text \<open>
  Claim C1. Starting from a history of at most 12 assets, any run of creations keeps the
  history at most 12 long: the result is the first 12 entries of the new assets, newest
  first, followed by the old history. What is dropped is the tail of that sequence, the
  oldest entries, and the order of the kept ones is unchanged. The same bound holds for
  any run of \<open>handleGenerate\<close> calls, whatever their outcomes.
\<close>
theorem history_capacity_fifo:
  assumes "length (history s) \<le> 12"
  shows "length (fold create ns (history s)) \<le> 12
       \<and> fold create ns (history s) = take 12 (rev ns @ history s)
       \<and> fold create ns (history s) @ drop 12 (rev ns @ history s) = rev ns @ history s
       \<and> length (history (generate_all envs s)) \<le> 12
       \<and> (\<exists>ms. length ms \<le> length envs
              \<and> history (generate_all envs s) = take 12 (rev ms @ history s))"
proof -
  have eq: "fold create ks (history s) = take 12 (rev ks @ history s)" for ks
    using assms by (rule fold_create)
  obtain ms where ms: "length ms \<le> length envs"
      "history (generate_all envs s) = fold create ms (history s)"
    using generate_all_history by blast
  have a: "length (fold create ns (history s)) \<le> 12"
    by (simp add: eq)
  have b: "fold create ns (history s) @ drop 12 (rev ns @ history s) = rev ns @ history s"
    by (simp only: eq append_take_drop_id)
  have c: "length (history (generate_all envs s)) \<le> 12"
    by (simp add: ms eq)
  have d: "\<exists>ms. length ms \<le> length envs
              \<and> history (generate_all envs s) = take 12 (rev ms @ history s)"
    using ms eq by metis
  from a eq b c d show ?thesis by blast
qed


theorem history_capacity_fifo_witness:
  "length (history full_state) \<le> 12
   \<and> fold create [sample_nft (js ''m'')] (history full_state)
       = sample_nft (js ''m'') # butlast (history full_state)
   \<and> drop 12 (rev [sample_nft (js ''m'')] @ history full_state) = [sample_nft (js ''a'')]
   \<and> length (history (generate_all [sample_env (js ''m'')] full_state)) \<le> 12"
proof -
  have h: "length (history full_state) \<le> 12"
    by (simp add: full_state_def cat_state_def initial_state_def)
  from history_capacity_fifo [OF h, of "[sample_nft (js ''m'')]" "[sample_env (js ''m'')]"]
  show ?thesis
    by (simp add: full_state_def cat_state_def initial_state_def)
qed

section \<open>Deletion\<close>

text \<open>
  Claim C3. \<open>deleteFromHistory i\<close> removes the assets with id \<open>i\<close> from the history
  (nothing changes there when no asset has that id), removes \<open>i\<close> from the listed set,
  and sets the selection to empty when the selected asset has id \<open>i\<close>; otherwise the
  selection is unchanged. No other part of the state changes.
\<close>
theorem delete_cascade:
  "history (deleteFromHistory i s) = filter (\<lambda>item. nft_id item \<noteq> i) (history s)
   \<and> i \<notin> nft_id ` set (history (deleteFromHistory i s))
   \<and> (i \<notin> nft_id ` set (history s) \<longrightarrow> history (deleteFromHistory i s) = history s)
   \<and> listedIds (deleteFromHistory i s) = listedIds s - {i}
   \<and> (map_option nft_id (currentNFT s) = Some i \<longrightarrow> currentNFT (deleteFromHistory i s) = None)
   \<and> (map_option nft_id (currentNFT s) \<noteq> Some i
        \<longrightarrow> currentNFT (deleteFromHistory i s) = currentNFT s)
   \<and> deleteFromHistory i s =
        s\<lparr>history := history (deleteFromHistory i s),
          listedIds := listedIds (deleteFromHistory i s),
          currentNFT := currentNFT (deleteFromHistory i s)\<rparr>"
proof -
  have a: "history (deleteFromHistory i s) = filter (\<lambda>item. nft_id item \<noteq> i) (history s)"
    by (simp add: deleteFromHistory_def)
  have b: "i \<notin> nft_id ` set (history (deleteFromHistory i s))"
    by (auto simp: a)
  have c: "i \<notin> nft_id ` set (history s) \<longrightarrow> history (deleteFromHistory i s) = history s"
    by (auto simp: a filter_id_conv)
  have d: "listedIds (deleteFromHistory i s) = listedIds s - {i}"
    by (simp add: deleteFromHistory_def)
  have e: "map_option nft_id (currentNFT s) = Some i
             \<longrightarrow> currentNFT (deleteFromHistory i s) = None"
    by (auto simp: deleteFromHistory_def split: option.splits)
  have f: "map_option nft_id (currentNFT s) \<noteq> Some i
             \<longrightarrow> currentNFT (deleteFromHistory i s) = currentNFT s"
    by (auto simp: deleteFromHistory_def split: option.splits)
  have g: "deleteFromHistory i s =
        s\<lparr>history := history (deleteFromHistory i s),
          listedIds := listedIds (deleteFromHistory i s),
          currentNFT := currentNFT (deleteFromHistory i s)\<rparr>"
    by (simp add: deleteFromHistory_def)
  from a b c d e f g show ?thesis by blast
qed

theorem delete_cascade_witness:
  "map_option nft_id (currentNFT editing_state) = Some (js ''a'')
   \<and> js ''c'' \<notin> nft_id ` set (history editing_state)
   \<and> map_option nft_id (currentNFT editing_state) \<noteq> Some (js ''b'')
   \<and> history (deleteFromHistory (js ''a'') editing_state) = [sample_nft (js ''b'')]
   \<and> listedIds (deleteFromHistory (js ''a'') editing_state) = {js ''b''}
   \<and> currentNFT (deleteFromHistory (js ''a'') editing_state) = None
   \<and> history (deleteFromHistory (js ''c'') editing_state) = history editing_state
   \<and> currentNFT (deleteFromHistory (js ''b'') editing_state) = currentNFT editing_state"
  using delete_cascade [of "js ''a''" editing_state]
    delete_cascade [of "js ''b''" editing_state]
    delete_cascade [of "js ''c''" editing_state]
  by (simp add: editing_state_def initial_state_def sample_nft_def js_def insert_Diff_if)

section \<open>Validation of the prompt\<close>

text \<open>
  Claim C4. When the prompt is empty or consists of whitespace only, \<open>handleGenerate\<close>
  sets the validation message and nothing else: no request is sent to the model, and the
  history, the selection and the listed set are unchanged.
\<close>
theorem blank_prompt_rejected:
  assumes "\<forall>c\<in>set (prompt s). isWhiteSpace c"
  shows "fst (handleGenerate env s) = []
       \<and> snd (handleGenerate env s) =
           s\<lparr>error := Some (js ''Please enter a prompt to generate an image.'')\<rparr>
       \<and> history (snd (handleGenerate env s)) = history s
       \<and> currentNFT (snd (handleGenerate env s)) = currentNFT s
       \<and> listedIds (snd (handleGenerate env s)) = listedIds s"
proof -
  from assms have "trim (prompt s) = []"
    by (simp add: trim_Nil_iff)
  then show ?thesis
    by (simp add: handleGenerate_def)
qed

theorem blank_prompt_rejected_witness:
  "list_all isWhiteSpace (prompt blank_state)
   \<and> fst (handleGenerate (sample_env (js ''b'')) blank_state) = []
   \<and> history (snd (handleGenerate (sample_env (js ''b'')) blank_state)) = [sample_nft (js ''a'')]
   \<and> error (snd (handleGenerate (sample_env (js ''b'')) blank_state))
       = Some (js ''Please enter a prompt to generate an image.'')"
proof -
  have h: "\<forall>c\<in>set (prompt blank_state). isWhiteSpace c"
    by (simp add: blank_state_def initial_state_def js_def isWhiteSpace_def)
  from blank_prompt_rejected [OF h, of "sample_env (js ''b'')"] h show ?thesis
    by (simp add: blank_state_def initial_state_def list_all_iff)
qed


section \<open>The request sent to the model\<close>

lemma generateNFTImage_calls:
  "fst (generateNFTImage env p ar) =
     (if apiKey env = None \<or> apiKey env = Some [] then [] else [build_request p ar])"
  by (simp add: generateNFTImage_def Let_def split: sum.splits)

lemma handleGenerate_calls:
  "fst (handleGenerate env s) =
     (if trim (prompt s) = [] then [] else fst (generateNFTImage env (prompt s) (aspectRatio s)))"
  by (simp add: handleGenerate_def Let_def split: prod.splits sum.splits)

text \<open>
  Claim C5, amended. When the prompt has a non-whitespace character and an API key is
  configured, \<open>handleGenerate\<close> sends exactly one request to the model: its text is the
  fixed style prefix followed by the prompt as typed (not trimmed), and its aspect ratio
  is the selected one.
\<close>
theorem generate_request:
  assumes "trim (prompt s) \<noteq> []" and "apiKey env \<noteq> None" and "apiKey env \<noteq> Some []"
  shows "fst (handleGenerate env s) =
           [\<lparr>req_model = js ''gemini-2.5-flash-image'',
             req_parts = [prompt_prefix @ prompt s],
             req_aspectRatio = aspectRatio s\<rparr>]"
  using assms by (simp add: handleGenerate_calls generateNFTImage_calls build_request_def)

theorem generate_request_witness:
  "trim (prompt cat_state) \<noteq> []
   \<and> apiKey (sample_env (js ''a'')) = Some (js ''k'')
   \<and> fst (handleGenerate (sample_env (js ''a'')) cat_state) =
           [\<lparr>req_model = js ''gemini-2.5-flash-image'',
             req_parts = [prompt_prefix @ js ''cat''],
             req_aspectRatio = R1_1\<rparr>]"
proof -
  have h1: "trim (prompt cat_state) \<noteq> []"
    by (simp add: cat_state_def initial_state_def trim_cat)
  have h2: "apiKey (sample_env (js ''a'')) \<noteq> None"
    by (simp add: sample_env_def)
  have h3: "apiKey (sample_env (js ''a'')) \<noteq> Some []"
    by (simp add: sample_env_def js_def)
  from generate_request [OF h1 h2 h3] h1 show ?thesis
    by (simp add: cat_state_def initial_state_def sample_env_def)
qed

text \<open>
  The text of the request is not the prompt itself: for the prompt \<open>cat\<close> the model
  receives the prefix followed by \<open>cat\<close>.
\<close>
theorem prompt_not_sent_verbatim:
  "prompt cat_state = js ''cat''
   \<and> aspectRatio cat_state = R1_1
   \<and> map req_parts (fst (handleGenerate (sample_env (js ''a'')) cat_state))
       = [[prompt_prefix @ js ''cat'']]
   \<and> map req_parts (fst (handleGenerate (sample_env (js ''a'')) cat_state))
       \<noteq> [[prompt cat_state]]"
proof -
  have p: "prompt cat_state = js ''cat''" "aspectRatio cat_state = R1_1"
    by (simp_all add: cat_state_def initial_state_def)
  have k: "apiKey (sample_env (js ''a'')) = Some (js ''k'')" "js ''k'' \<noteq> []"
    by (simp_all add: sample_env_def js_def)
  have c: "map req_parts (fst (handleGenerate (sample_env (js ''a'')) cat_state))
       = [[prompt_prefix @ js ''cat'']]"
    by (simp add: handleGenerate_calls generateNFTImage_calls build_request_def p k trim_cat)
  have "prompt_prefix \<noteq> []"
    by (simp add: prompt_prefix_def js_def)
  then have "prompt_prefix @ js ''cat'' \<noteq> js ''cat''"
    by simp
  with p c show ?thesis by simp
qed

section \<open>The image data of a generated asset\<close>

lemma scan_parts_inline:
  "list_ex (\<lambda>p. inlineData p \<noteq> None) ps \<Longrightarrow> scan_parts ps acc \<noteq> []"
  by (induction ps acc rule: scan_parts.induct) (auto simp: js_def split: option.splits)

lemma scan_parts_no_inline:
  "\<not> list_ex (\<lambda>p. inlineData p \<noteq> None) ps \<Longrightarrow> scan_parts ps acc = acc"
  by (induction ps acc rule: scan_parts.induct) auto

lemma first_parts_no_inline:
  assumes "\<not> has_inlineData response"
  shows "(case first_parts response of None \<Rightarrow> [] | Some ps \<Rightarrow> scan_parts ps []) = []"
proof (cases "first_parts response")
  case None
  then show ?thesis by simp
next
  case (Some ps)
  then obtain c cs ct where
    "candidates response = Some (c # cs)" "content c = Some ct" "parts ct = Some ps"
    by (auto simp: first_parts_def split: option.splits list.splits)
  with assms have "\<not> list_ex (\<lambda>p. inlineData p \<noteq> None) ps"
    by (simp add: has_inlineData_def)
  with Some show ?thesis
    by (simp add: scan_parts_no_inline)
qed

text \<open>A payload is carried by an \<open>inlineData\<close> object, so a response without such an
  object has no payload.\<close>

lemma has_inline_payload_inlineData:
  assumes "has_inline_payload response"
  shows "has_inlineData response"
proof -
  have p: "list_ex (\<lambda>p. inlineData p \<noteq> None) ps" if "list_ex carries_payload ps" for ps
    using that by (induction ps) (auto simp: carries_payload_def split: option.splits)
  from assms obtain cs c ct ps where
    w: "candidates response = Some cs" "c \<in> set cs" "content c = Some ct"
       "parts ct = Some ps" "list_ex carries_payload ps"
    by (auto simp: has_inline_payload_def list_ex_iff split: option.splits)
  from w(5) have "list_ex (\<lambda>p. inlineData p \<noteq> None) ps"
    by (rule p)
  with w(3,4) have "case content c of
                     None \<Rightarrow> False
                   | Some ct \<Rightarrow> (case parts ct of
                                  None \<Rightarrow> False
                                | Some ps \<Rightarrow> list_ex (\<lambda>p. inlineData p \<noteq> None) ps)"
    by simp
  with w(1,2) show ?thesis
    unfolding has_inlineData_def list_ex_iff by auto
qed

text \<open>What the code does guarantee: the returned URL is never the empty string, and a
  response without any \<open>inlineData\<close> object gives the extraction error.\<close>

lemma generateNFTImage_nonempty: "snd (generateNFTImage env p ar) \<noteq> Inr []"
  by (simp add: generateNFTImage_def Let_def split: sum.splits)

lemma no_inlineData_extraction_error:
  assumes "apiKey env \<noteq> None" and "apiKey env \<noteq> Some []"
    and "generateContent env (build_request p ar) = Inr response"
    and "\<not> has_inlineData response"
  shows "snd (generateNFTImage env p ar) = Inl extraction_error"
  using assms by (auto simp: generateNFTImage_def Let_def first_parts_no_inline)

lemma handleGenerate_outcome:
  "(error (snd (handleGenerate env s)) \<noteq> None
      \<and> history (snd (handleGenerate env s)) = history s
      \<and> currentNFT (snd (handleGenerate env s)) = currentNFT s)
   \<or> (\<exists>n. nft_url n \<noteq> []
          \<and> currentNFT (snd (handleGenerate env s)) = Some n
          \<and> history (snd (handleGenerate env s)) = create n (history s)
          \<and> error (snd (handleGenerate env s)) = None)"
proof (cases "trim (prompt s) = []")
  case True
  then show ?thesis by (simp add: handleGenerate_def)
next
  case False
  obtain calls r where r: "generateNFTImage env (prompt s) (aspectRatio s) = (calls, r)"
    by (cases "generateNFTImage env (prompt s) (aspectRatio s)")
  show ?thesis
  proof (cases r)
    case (Inl e)
    with False r show ?thesis by (simp add: handleGenerate_def)
  next
    case (Inr imageUrl)
    from generateNFTImage_nonempty [of env "prompt s" "aspectRatio s"] r Inr
    have "imageUrl \<noteq> []" by auto
    with False r Inr show ?thesis
      by (simp add: handleGenerate_def Let_def)
  qed
qed

lemma text_response_extraction_error:
  "\<not> has_inlineData text_response
   \<and> snd (generateNFTImage text_env (js ''cat'') R1_1) = Inl extraction_error"
proof -
  have h: "apiKey text_env \<noteq> None" "apiKey text_env \<noteq> Some []"
      "generateContent text_env (build_request (js ''cat'') R1_1) = Inr text_response"
      "\<not> has_inlineData text_response"
    by (simp_all add: text_env_def text_response_def has_inlineData_def js_def)
  from no_inlineData_extraction_error [OF h] h(4) show ?thesis
    by simp
qed

lemma empty_payload_url:
  "generateNFTImage empty_payload_env (js ''cat'') R1_1
     = ([build_request (js ''cat'') R1_1], Inr (js ''data:image/png;base64,''))"
  by (simp add: generateNFTImage_def empty_payload_env_def empty_payload_response_def
      first_parts_def js_def)

lemma missing_payload_url:
  "generateNFTImage missing_payload_env (js ''cat'') R1_1
     = ([build_request (js ''cat'') R1_1], Inr (js ''data:image/png;base64,undefined''))"
  by (simp add: generateNFTImage_def missing_payload_env_def missing_payload_response_def
      first_parts_def js_def)

text \<open>
  Claim C6. Generation is to give an asset with image data or an error, and the
  extraction error when the response has no inline image payload. The guard that throws
  the extraction error tests the URL after the prefix \<open>data:image/png;base64,\<close> has been
  put in front of the payload, so it does not see a payload that is empty or missing:
  for a response whose only part is \<open>{inlineData: {data: ''}}\<close> no error is thrown,
  \<open>generateNFTImage\<close> returns the bare prefix, and \<open>handleGenerate\<close> stores and selects
  an asset with that URL and no error message. With \<open>{inlineData: {}}\<close> the URL is the
  prefix followed by \<open>undefined\<close>.
\<close>
theorem empty_payload_stored:
  "\<not> has_inline_payload empty_payload_response
   \<and> generateContent empty_payload_env (build_request (js ''cat'') R1_1)
       = Inr empty_payload_response
   \<and> snd (generateNFTImage empty_payload_env (js ''cat'') R1_1)
       = Inr (js ''data:image/png;base64,'')
   \<and> snd (generateNFTImage empty_payload_env (js ''cat'') R1_1) \<noteq> Inl extraction_error
   \<and> error (snd (handleGenerate empty_payload_env cat_state)) = None
   \<and> map nft_url (history (snd (handleGenerate empty_payload_env cat_state)))
       = [js ''data:image/png;base64,'']
   \<and> map_option nft_url (currentNFT (snd (handleGenerate empty_payload_env cat_state)))
       = Some (js ''data:image/png;base64,'')
   \<and> \<not> has_inline_payload missing_payload_response
   \<and> snd (generateNFTImage missing_payload_env (js ''cat'') R1_1)
       = Inr (js ''data:image/png;base64,undefined'')
   \<and> error (snd (handleGenerate missing_payload_env cat_state)) = None
   \<and> map nft_url (history (snd (handleGenerate missing_payload_env cat_state)))
       = [js ''data:image/png;base64,undefined'']"
proof -
  have n: "\<not> has_inline_payload empty_payload_response"
      "\<not> has_inline_payload missing_payload_response"
    by (simp_all add: has_inline_payload_def carries_payload_def empty_payload_response_def
        missing_payload_response_def)
  have g: "generateContent empty_payload_env (build_request (js ''cat'') R1_1)
       = Inr empty_payload_response"
    by (simp add: empty_payload_env_def)
  have c: "prompt cat_state = js ''cat''" "aspectRatio cat_state = R1_1"
      "history cat_state = []"
    by (simp_all add: cat_state_def initial_state_def)
  have e: "error (snd (handleGenerate empty_payload_env cat_state)) = None"
      "map nft_url (history (snd (handleGenerate empty_payload_env cat_state)))
         = [js ''data:image/png;base64,'']"
      "map_option nft_url (currentNFT (snd (handleGenerate empty_payload_env cat_state)))
         = Some (js ''data:image/png;base64,'')"
    using trim_cat by (simp_all add: handleGenerate_def Let_def c empty_payload_url create_def)
  have m: "error (snd (handleGenerate missing_payload_env cat_state)) = None"
      "map nft_url (history (snd (handleGenerate missing_payload_env cat_state)))
         = [js ''data:image/png;base64,undefined'']"
    using trim_cat by (simp_all add: handleGenerate_def Let_def c missing_payload_url create_def)
  from n g e m show ?thesis
    by (simp add: empty_payload_url missing_payload_url)
qed

section \<open>Canvas dimensions under rotation\<close>

text \<open>
  Claim C7. When an edit is saved for a loaded image of width \<open>W\<close> and height \<open>H\<close>, the
  canvas is \<open>H\<close> by \<open>W\<close> if the rotation is not a multiple of 180 (90 or 270), and
  \<open>W\<close> by \<open>H\<close> if it is (0 or 180). This holds for every integer rotation, the
  multiples of 90 among them.
\<close>
theorem rotation_dimension_law:
  assumes "currentNFT s = Some cur" and "canvasRef cenv = Some canvas0"
    and "loadImage cenv (nft_url cur) = Some img"
  shows "\<exists>canvas. fst (applyEdits cenv s) = Saved canvas
           \<and> (rotation (editState s) mod 180 \<noteq> 0
                \<longrightarrow> canvas_width canvas = img_height img
                    \<and> canvas_height canvas = img_width img)
           \<and> (rotation (editState s) mod 180 = 0
                \<longrightarrow> canvas_width canvas = img_width img
                    \<and> canvas_height canvas = img_height img)"
  using assms by (simp add: applyEdits_def Let_def js_rem_eq_0_iff)

theorem rotation_dimension_law_witness:
  "currentNFT editing_state = Some (sample_nft (js ''a''))
   \<and> loadImage sample_canvas_env (nft_url (sample_nft (js ''a'')))
       = Some \<lparr>img_width = 800, img_height = 600\<rparr>
   \<and> rotation (editState editing_state) = 90
   \<and> (\<exists>canvas. fst (applyEdits sample_canvas_env editing_state) = Saved canvas
          \<and> canvas_width canvas = 600 \<and> canvas_height canvas = 800)
   \<and> (\<exists>canvas. fst (applyEdits sample_canvas_env (resetEdit editing_state)) = Saved canvas
          \<and> canvas_width canvas = 800 \<and> canvas_height canvas = 600)"
proof -
  have h: "currentNFT editing_state = Some (sample_nft (js ''a''))"
      "currentNFT (resetEdit editing_state) = Some (sample_nft (js ''a''))"
      "canvasRef sample_canvas_env = Some \<lparr>canvas_width = 300, canvas_height = 150,
         ctx_filter = None, ctx_calls = []\<rparr>"
      "loadImage sample_canvas_env (nft_url (sample_nft (js ''a'')))
         = Some \<lparr>img_width = 800, img_height = 600\<rparr>"
    by (simp_all add: editing_state_def initial_state_def sample_canvas_env_def resetEdit_def)
  have r: "rotation (editState editing_state) = 90"
      "rotation (editState (resetEdit editing_state)) = 0"
    by (simp_all add: editing_state_def initial_state_def resetEdit_def INITIAL_EDIT_STATE_def)
  from rotation_dimension_law [OF h(1) h(3) h(4)] rotation_dimension_law [OF h(2) h(3) h(4)]
    h(1) h(4) r
  show ?thesis by simp
qed

text \<open>
  With the default parameters the canvas has the size of the image and receives the
  filter percentages 100, 100, 0, 0, a rotation by 0 degrees and a draw at the origin of
  the translated frame. The pixels that result are those of the browser's rasteriser and
  PNG encoder, which \<open>toDataURL\<close> stands for.
\<close>

lemma applyEdits_default_canvas:
  assumes "currentNFT s = Some cur" and "canvasRef cenv = Some canvas0"
    and "loadImage cenv (nft_url cur) = Some img" and "editState s = INITIAL_EDIT_STATE"
  shows "fst (applyEdits cenv s) =
           Saved \<lparr>canvas_width = img_width img, canvas_height = img_height img,
                  ctx_filter = Some (100, 100, 0, 0),
                  ctx_calls =
                    [ClearRect 0 0 (of_nat (img_width img)) (of_nat (img_height img)),
                     Translate (of_nat (img_width img) / 2) (of_nat (img_height img) / 2),
                     Rotate 0,
                     DrawImage img (- of_nat (img_width img) / 2)
                                   (- of_nat (img_height img) / 2)]\<rparr>"
  using assms by (simp add: applyEdits_def Let_def INITIAL_EDIT_STATE_def js_rem_def)

section \<open>Loading a stored history\<close>

lemma load_history_parsed:
  assumes "nft_history st = Some str" and "str \<noteq> []" and "parse_history j str = Some parsed"
  shows "history (load j st s) = parsed"
  using assms
  by (auto simp: load_def load_history_def load_listed_def split: option.splits list.splits)

text \<open>
  Claim C10. Loading applies no capacity bound: a stored history that parses becomes the
  history as it is, and a stored history of 13 assets gives a history longer than 12.
\<close>
theorem load_unbounded:
  "(nft_history st = Some str \<and> str \<noteq> [] \<and> parse_history j str = Some parsed
      \<longrightarrow> history (load j st s) = parsed)
   \<and> 12 < length (history (load long_json long_storage initial_state))"
proof -
  have "history (load long_json long_storage initial_state) = long_history"
    by (rule load_history_parsed [where str = "js ''[...]''"])
       (simp_all add: long_storage_def long_json_def js_def)
  then have "12 < length (history (load long_json long_storage initial_state))"
    by (simp add: long_history_def)
  with load_history_parsed [of st str j parsed s] show ?thesis
    by blast
qed

theorem load_unbounded_witness:
  "nft_history long_storage = Some (js ''[...]'')
   \<and> parse_history long_json (js ''[...]'') = Some long_history
   \<and> history (load long_json long_storage initial_state) = long_history
   \<and> length long_history = 13"
proof -
  have h: "nft_history long_storage = Some (js ''[...]'')" "js ''[...]'' \<noteq> []"
      "parse_history long_json (js ''[...]'') = Some long_history"
    by (simp_all add: long_storage_def long_json_def js_def)
  from load_unbounded [of long_storage "js ''[...]''" long_json long_history initial_state] h
  have "history (load long_json long_storage initial_state) = long_history"
    by blast
  with h show ?thesis
    by (simp add: long_history_def)
qed

section \<open>Listed ids after an eviction\<close>

lemma delete_keeps_listed_in_history:
  "listed_in_history s \<Longrightarrow> listed_in_history (deleteFromHistory i s)"
  by (auto simp: listed_in_history_def deleteFromHistory_def)

lemma list_keeps_listed_in_history:
  "nft \<in> set (history s) \<Longrightarrow> listed_in_history s
     \<Longrightarrow> listed_in_history (listOnPlatform platform nft s)"
  by (auto simp: listed_in_history_def listOnPlatform_def)

lemma step_generate_cat:
  assumes "viewMode s = forge" and "\<not> isGenerating s" and "prompt s = js ''cat''"
    and "aspectRatio s = R1_1"
  shows "step (ClickGenerate (sample_env u)) s =
           s\<lparr>error := None, isEditing := False,
             currentNFT := Some (sample_nft u),
             history := create (sample_nft u) (history s),
             isGenerating := False\<rparr>"
proof -
  have "generateNFTImage (sample_env u) (js ''cat'') R1_1
          = ([build_request (js ''cat'') R1_1], Inr (js ''data:image/png;base64,AAAA''))"
    by (simp add: generateNFTImage_def sample_env_def image_response_def first_parts_def js_def)
  with assms trim_cat show ?thesis
    by (simp add: in_forge_def handleGenerate_def sample_nft_def sample_env_def Let_def)
qed

lemma run_Cons: "run (e # es) s = run es (step e s)"
  by (simp add: run_def)

lemma run_generate_cat:
  assumes "viewMode s = forge" and "\<not> isGenerating s" and "prompt s = js ''cat''"
    and "aspectRatio s = R1_1"
  shows "listedIds (run (map (\<lambda>u. ClickGenerate (sample_env (js u))) us) s) = listedIds s
       \<and> history (run (map (\<lambda>u. ClickGenerate (sample_env (js u))) us) s)
           = fold create (map (\<lambda>u. sample_nft (js u)) us) (history s)"
  using assms
proof (induction us arbitrary: s)
  case Nil
  show ?case by (simp add: run_def)
next
  case (Cons u us)
  define s1 where "s1 = step (ClickGenerate (sample_env (js u))) s"
  have s1: "s1 = s\<lparr>error := None, isEditing := False,
             currentNFT := Some (sample_nft (js u)),
             history := create (sample_nft (js u)) (history s),
             isGenerating := False\<rparr>"
    unfolding s1_def using Cons.prems by (rule step_generate_cat)
  have "viewMode s1 = forge" "\<not> isGenerating s1" "prompt s1 = js ''cat''"
      "aspectRatio s1 = R1_1"
    using Cons.prems by (simp_all add: s1)
  from Cons.IH [OF this]
  have "listedIds (run (map (\<lambda>u. ClickGenerate (sample_env (js u))) us) s1) = listedIds s1
       \<and> history (run (map (\<lambda>u. ClickGenerate (sample_env (js u))) us) s1)
           = fold create (map (\<lambda>u. sample_nft (js u)) us) (history s1)" .
  moreover have "listedIds s1 = listedIds s"
      "history s1 = create (sample_nft (js u)) (history s)"
    by (simp_all add: s1)
  moreover have "run (map (\<lambda>u. ClickGenerate (sample_env (js u))) (u # us)) s
      = run (map (\<lambda>u. ClickGenerate (sample_env (js u))) us) s1"
    by (simp only: list.map run_Cons s1_def)
  ultimately show ?case
    by simp
qed

lemma eviction_session_prefix:
  "run [TypePrompt (js ''cat''), ClickGenerate (sample_env (js ''a'')), ClickNav marketplace,
        ClickList platform_x (sample_nft (js ''a'')), ClickNav forge] initial_state
   = initial_state\<lparr>prompt := js ''cat'', currentNFT := Some (sample_nft (js ''a'')),
       history := [sample_nft (js ''a'')], listedIds := {js ''a''}\<rparr>"
  by (simp add: run_def initial_state_def step_generate_cat in_forge_def listOnPlatform_def
      create_def sample_nft_def del: step.simps(4))

lemma eviction_session_run:
  "listedIds (run eviction_session initial_state) = {js ''a''}
   \<and> history (run eviction_session initial_state)
       = map (\<lambda>u. sample_nft (js u))
           [''m'', ''l'', ''k'', ''j'', ''i'', ''h'', ''g'', ''f'', ''e'', ''d'', ''c'', ''b'']"
proof -
  define s5 where "s5 = initial_state\<lparr>prompt := js ''cat'',
       currentNFT := Some (sample_nft (js ''a'')),
       history := [sample_nft (js ''a'')], listedIds := {js ''a''}\<rparr>"
  define us where
    "us = [''b'', ''c'', ''d'', ''e'', ''f'', ''g'', ''h'', ''i'', ''j'', ''k'', ''l'', ''m'']"
  have r: "run eviction_session initial_state
             = run (map (\<lambda>u. ClickGenerate (sample_env (js u))) us) s5"
    unfolding eviction_session_def s5_def us_def
    by (simp only: run_def fold_append o_apply flip: eviction_session_prefix)
  have p: "viewMode s5 = forge" "\<not> isGenerating s5" "prompt s5 = js ''cat''"
      "aspectRatio s5 = R1_1"
    by (simp_all add: s5_def initial_state_def)
  have h5: "history s5 = [sample_nft (js ''a'')]" "listedIds s5 = {js ''a''}"
    by (simp_all add: s5_def)
  have f: "fold create (map (\<lambda>u. sample_nft (js u)) us) [sample_nft (js ''a'')]
             = take 12 (rev (map (\<lambda>u. sample_nft (js u)) us) @ [sample_nft (js ''a'')])"
    by (rule fold_create) simp
  have t: "take 12 (rev (map (\<lambda>u. sample_nft (js u)) us) @ [sample_nft (js ''a'')])
             = map (\<lambda>u. sample_nft (js u))
           [''m'', ''l'', ''k'', ''j'', ''i'', ''h'', ''g'', ''f'', ''e'', ''d'', ''c'', ''b'']"
    by (simp add: us_def)
  from run_generate_cat [OF p, of us] show ?thesis
    by (simp only: r h5 f t)
qed

text \<open>
  Claim C2. The listed ids are meant to be ids of assets of the history. After the session
  \<open>eviction_session\<close> the id \<open>a\<close> is still listed although its asset has been evicted
  from the history by the thirteenth generation.
\<close>
theorem eviction_leaves_listing:
  "js ''a'' \<in> listedIds (run eviction_session initial_state)
   \<and> js ''a'' \<notin> nft_id ` set (history (run eviction_session initial_state))
   \<and> \<not> listed_in_history (run eviction_session initial_state)"
proof -
  have "js ''a'' \<notin> nft_id ` set (history (run eviction_session initial_state))"
    by (simp add: eviction_session_run sample_nft_def js_def)
  then show ?thesis
    by (simp add: eviction_session_run listed_in_history_def)
qed

section \<open>Cancelling an edit\<close>

lemma cancelEdit_frame:
  "cancelEdit s = s\<lparr>isEditing := False\<rparr> \<and> isEditing (cancelEdit s) = False
   \<and> editState (cancelEdit s) = editState s
   \<and> history (cancelEdit s) = history s \<and> currentNFT (cancelEdit s) = currentNFT s"
  by (simp add: cancelEdit_def)

text \<open>
  Claim C9. \<open>Cancel\<close> leaves edit mode and changes neither the history nor the selected
  asset, but the edit parameters stay as they were set (brightness 150, rotation 90);
  saving the edit resets them to the defaults.
\<close>
theorem cancel_keeps_edit_parameters:
  "step ClickCancel editing_state = cancelEdit editing_state
   \<and> isEditing (cancelEdit editing_state) = False
   \<and> history (cancelEdit editing_state) = history editing_state
   \<and> currentNFT (cancelEdit editing_state) = currentNFT editing_state
   \<and> brightness (editState (cancelEdit editing_state)) = 150
   \<and> rotation (editState (cancelEdit editing_state)) = 90
   \<and> editState (cancelEdit editing_state) \<noteq> INITIAL_EDIT_STATE
   \<and> editState (snd (applyEdits sample_canvas_env editing_state)) = INITIAL_EDIT_STATE"
  by (simp add: cancelEdit_def editing_state_def initial_state_def INITIAL_EDIT_STATE_def
      panel_open_def in_forge_def applyEdits_def sample_canvas_env_def Let_def)

end
